theory Spec2Isabelle
  imports Main
begin

section \<open>The article ingestion route (src/app/api/fetch-articles/route.ts)\<close>

text \<open>
  The route handler \<open>POST\<close> walks a fixed keyword catalog, asks the news source once per
  keyword, flattens the results to articles, and hands the accumulated articles to
  \<open>insertArticles\<close>, which ensures the table and upserts the projected rows.

  The embedding is state passing. Everything outside the module (the HTTP endpoint of the
  news source, the data store, the clock, the date parser, the global object of the
  runtime) is a field of a \<open>world\<close> record; the calls made to the outside are appended to a trace in call order, so that
  "which requests, in which order" is a property of the returned state. An \<open>async\<close>
  function returns a promise that resolves or rejects: its model returns
  \<open>js_error + 'a\<close>, with \<open>Inl\<close> for the rejection. Console output is not modelled.
\<close>

subsection \<open>Data\<close>

text \<open>
  A thrown value: an instance of \<open>Error\<close> with its name and message, or any other value,
  kept by what \<open>String(value)\<close> renders (the store client hands out plain error objects).
\<close>

datatype js_error = Error string string | Thrown string

text \<open>\<open>interface Article\<close> (lines 16 to 23).\<close>

record Article =
  title :: string
  link :: string
  snippet :: string
  date :: string
  source :: string
  created_at :: string

text \<open>
  \<open>interface SerpApiNewsResult\<close> (lines 25 to 33). The field \<open>source\<close> is optional and is
  either a string or an object whose \<open>title\<close> is itself optional.
\<close>

datatype source_field = SourceAbsent | SourceString string | SourceObject "string option"

record SerpApiNewsResult =
  raw_title :: string
  raw_link :: string
  raw_snippet :: string
  raw_date :: string
  raw_source :: source_field

text \<open>The object literal built at lines 161 to 167, one per article.\<close>

record row =
  url :: string
  row_title :: string
  description :: string
  published_at :: string
  row_created_at :: string

text \<open>
  What \<open>data.news_results\<close> can be at line 130: missing (or otherwise falsy), present but
  not an array, or an array of results. \<open>data\<close> itself is whatever the body parses to; on
  \<open>null\<close> the property access of line 130 throws a \<open>TypeError\<close>.
\<close>

datatype news_results = NoResults | NotArray | Results "SerpApiNewsResult list"

datatype response_data = NullData | Data news_results

record response =
  ok :: bool
  text_body :: "js_error + string"
  json_body :: "js_error + response_data"

datatype fetch_outcome = Rejects js_error | Resolves response

text \<open>A \<open>Date\<close> object holds a time value (milliseconds) or is invalid.\<close>

datatype Date = Invalid | Time int

text \<open>
  Calls that leave the module, in the order they are made: the search request with its
  query parameters, the pause, the stored procedure call with its name and SQL text, and
  the upsert with its table, rows, conflict column and \<open>ignoreDuplicates\<close> flag.
\<close>

datatype event =
    is_Fetch: Fetch string "(string \<times> string) list"
  | is_Delay: Delay nat
  | is_Rpc: Rpc string string
  | is_Upsert: Upsert string "row list" string bool

text \<open>
  A property of the runtime's global object, by what the module can observe of it: whether
  the value is truthy, and how \<^verbatim>\<open>await value.json()\<close> ends (\<open>None\<close> when it
  completes, the thrown value otherwise, as when the value has no such method).
\<close>

record global_value =
  truthy :: bool
  json_call :: "js_error option"

text \<open>
  The outside: the API key of line 7, the news source's answer to a request, the clock (the
  time value of the n-th \<open>new Date()\<close> of the run), the date parser behind
  \<open>new Date(string)\<close> (\<open>None\<close> when the string does not parse), the rendering of a time
  value by \<open>toISOString\<close>, the \<open>error\<close> member of the data store's answers, and the
  global object of the runtime (\<open>None\<close> for a name it does not define).
\<close>

record world =
  serpApiKey :: string
  fetch :: "string \<Rightarrow> (string \<times> string) list \<Rightarrow> fetch_outcome"
  Date_now :: "nat \<Rightarrow> int"
  Date_parse :: "string \<Rightarrow> int option"
  iso :: "int \<Rightarrow> string"
  rpc :: "string \<Rightarrow> string \<Rightarrow> js_error option"
  upsert :: "row list \<Rightarrow> js_error option"
  globalThis :: "string \<Rightarrow> global_value option"

record state =
  ticks :: nat
  trace :: "event list"

text \<open>What \<open>NextResponse.json(body, { status })\<close> carries; the status defaults to 200.\<close>

datatype reply_body = Summary bool string | Failure string string

record reply =
  status :: nat
  body :: reply_body

subsection \<open>The keyword catalog (lines 36 to 63)\<close>

text \<open>
  Strings are kept as their UTF-8 bytes; the keywords are only ever passed on as the query.
  \<open>Object.entries\<close> lists the three groups in declaration order.
\<close>

definition arabic_keywords :: "string list" where
  "arabic_keywords =
     [[CHR 0xD8, CHR 0xA7, CHR 0xD9, CHR 0x84, CHR 0xD8, CHR 0xA8, CHR 0xD8, CHR 0xAD, CHR 0xD8,
        CHR 0xB1, CHR 0xD9, CHR 0x8A, CHR 0xD8, CHR 0xA9] @ '' '' @ [CHR 0xD8, CHR 0xA7,
        CHR 0xD9, CHR 0x84, CHR 0xD9, CHR 0x85, CHR 0xD9, CHR 0x84, CHR 0xD9, CHR 0x83,
        CHR 0xD9, CHR 0x8A, CHR 0xD8, CHR 0xA9],
      [CHR 0xD8, CHR 0xA7, CHR 0xD9, CHR 0x84, CHR 0xD8, CHR 0xA8, CHR 0xD8, CHR 0xAD, CHR 0xD8,
        CHR 0xB1, CHR 0xD9, CHR 0x8A, CHR 0xD8, CHR 0xA9] @ '' '' @ [CHR 0xD8, CHR 0xA7,
        CHR 0xD9, CHR 0x84, CHR 0xD9, CHR 0x85, CHR 0xD9, CHR 0x84, CHR 0xD9, CHR 0x83,
        CHR 0xD9, CHR 0x8A, CHR 0xD8, CHR 0xA9] @ '' '' @ [CHR 0xD8, CHR 0xA7, CHR 0xD9,
        CHR 0x84, CHR 0xD9, CHR 0x85, CHR 0xD8, CHR 0xBA, CHR 0xD8, CHR 0xB1, CHR 0xD8,
        CHR 0xA8, CHR 0xD9, CHR 0x8A, CHR 0xD8, CHR 0xA9],
      [CHR 0xD8, CHR 0xA7, CHR 0xD9, CHR 0x84, CHR 0xD8, CHR 0xA8, CHR 0xD8, CHR 0xAD, CHR 0xD8,
        CHR 0xB1, CHR 0xD9, CHR 0x8A, CHR 0xD8, CHR 0xA9] @ '' '' @ [CHR 0xD8, CHR 0xA7,
        CHR 0xD9, CHR 0x84, CHR 0xD9, CHR 0x85, CHR 0xD8, CHR 0xBA, CHR 0xD8, CHR 0xB1,
        CHR 0xD8, CHR 0xA8, CHR 0xD9, CHR 0x8A, CHR 0xD8, CHR 0xA9],
      [CHR 0xD8, CHR 0xA7, CHR 0xD9, CHR 0x84, CHR 0xD9, CHR 0x82, CHR 0xD9, CHR 0x88, CHR 0xD8,
        CHR 0xA9] @ '' '' @ [CHR 0xD8, CHR 0xA7, CHR 0xD9, CHR 0x84, CHR 0xD8, CHR 0xA8,
        CHR 0xD8, CHR 0xAD, CHR 0xD8, CHR 0xB1, CHR 0xD9, CHR 0x8A, CHR 0xD8, CHR 0xA9] @
        '' '' @ [CHR 0xD8, CHR 0xA7, CHR 0xD9, CHR 0x84, CHR 0xD9, CHR 0x85, CHR 0xD8, CHR
        0xBA, CHR 0xD8, CHR 0xB1, CHR 0xD8, CHR 0xA8, CHR 0xD9, CHR 0x8A, CHR 0xD8, CHR
        0xA9],
      [CHR 0xD8, CHR 0xB3, CHR 0xD9, CHR 0x81, CHR 0xD9, CHR 0x8A, CHR 0xD9, CHR 0x86, CHR 0xD8,
        CHR 0xA9] @ '' '' @ [CHR 0xD8, CHR 0xAD, CHR 0xD8, CHR 0xB1, CHR 0xD8, CHR 0xA8,
        CHR 0xD9, CHR 0x8A, CHR 0xD8, CHR 0xA9] @ '' '' @ [CHR 0xD9, CHR 0x85, CHR 0xD8,
        CHR 0xBA, CHR 0xD8, CHR 0xB1, CHR 0xD8, CHR 0xA8, CHR 0xD9, CHR 0x8A, CHR 0xD8,
        CHR 0xA9],
      [CHR 0xD9, CHR 0x81, CHR 0xD8, CHR 0xB1, CHR 0xD9, CHR 0x82, CHR 0xD8, CHR 0xA7, CHR 0xD8,
        CHR 0xB7, CHR 0xD8, CHR 0xA9] @ '' '' @ [CHR 0xD9, CHR 0x85, CHR 0xD8, CHR 0xBA,
        CHR 0xD8, CHR 0xB1, CHR 0xD8, CHR 0xA8, CHR 0xD9, CHR 0x8A, CHR 0xD8, CHR 0xA9]]"

definition french_keywords :: "string list" where
  "french_keywords =
     [''La Marine royale'',
      ''La Marine Royale Marocaine'',
      ''La Marine marocaine'',
      ''L'' @ [CHR 0x27] @ ''Arm'' @ [CHR 0xC3, CHR 0xA9] @ ''e Navale Marocaine'',
      ''Force Navale Marocaine'',
      ''Navire de guerre marocain'',
      ''Fr'' @ [CHR 0xC3, CHR 0xA9] @ ''gate marocaine'']"

definition spanish_keywords :: "string list" where
  "spanish_keywords =
     [''la Marina Real'',
      ''la Marina Real Marroqu'' @ [CHR 0xC3, CHR 0xAD],
      ''la Marina Marroqu'' @ [CHR 0xC3, CHR 0xAD],
      ''las Fuerzas Navales Marroqu'' @ [CHR 0xC3, CHR 0xAD] @ ''es'',
      ''la Fuerza Naval Marroqu'' @ [CHR 0xC3, CHR 0xAD],
      ''buque de guerra marroqu'' @ [CHR 0xC3, CHR 0xAD],
      ''fragata marroqu'' @ [CHR 0xC3, CHR 0xAD]]"

definition keywords_catalog :: "(string \<times> string list) list" where
  "keywords_catalog =
     [(''arabic'', arabic_keywords), (''french'', french_keywords), (''spanish'', spanish_keywords)]"

subsection \<open>Dates\<close>

text \<open>
  \<open>new Date().toISOString()\<close>: one reading of the clock, rendered. A date made from
  the clock is never invalid, so this call does not throw.
\<close>

definition now_ISOString :: "world \<Rightarrow> state \<Rightarrow> string \<times> state" where
  "now_ISOString w s = (iso w (Date_now w (ticks s)), s\<lparr>ticks := Suc (ticks s)\<rparr>)"

text \<open>\<open>new Date(string)\<close>: an invalid date when the string does not parse.\<close>

definition new_Date_of :: "world \<Rightarrow> string \<Rightarrow> Date" where
  "new_Date_of w str = (case Date_parse w str of None \<Rightarrow> Invalid | Some t \<Rightarrow> Time t)"

text \<open>\<open>Date.prototype.toISOString\<close> throws a \<open>RangeError\<close> on an invalid date.\<close>

definition toISOString :: "world \<Rightarrow> Date \<Rightarrow> js_error + string" where
  "toISOString w d =
     (case d of
        Invalid \<Rightarrow> Inl (Error ''RangeError'' ''Invalid time value'')
      | Time t \<Rightarrow> Inr (iso w t))"

subsection \<open>fetchArticles (lines 105 to 147)\<close>

text \<open>The query parameters, in the order lines 110 to 118 append them.\<close>

definition searchParams :: "world \<Rightarrow> string \<Rightarrow> string \<Rightarrow> (string \<times> string) list" where
  "searchParams w keyword language =
     [(''api_key'', serpApiKey w),
      (''q'', keyword),
      (''engine'', ''google''),
      (''google_domain'', ''google.com''),
      (''gl'', ''ma''),
      (''hl'', if language = ''arabic'' then ''ar'' else if language = ''french'' then ''fr'' else ''es''),
      (''tbm'', ''nws''),
      (''tbs'', ''qdr:d''),
      (''num'', ''100'')]"

text \<open>
  Line 140:
  \<^verbatim>\<open>typeof article.source === 'string' ? article.source : article.source?.title || 'Unknown'\<close>.
  The \<open>||\<close> takes its right operand when the left one is \<open>undefined\<close> or the empty string.
\<close>

definition flattenSource :: "source_field \<Rightarrow> string" where
  "flattenSource src =
     (case src of
        SourceString str \<Rightarrow> str
      | SourceObject (Some t) \<Rightarrow> (if t \<noteq> [] then t else ''Unknown'')
      | SourceObject None \<Rightarrow> ''Unknown''
      | SourceAbsent \<Rightarrow> ''Unknown'')"

text \<open>The callback of \<open>map\<close> at lines 135 to 142; it reads the clock once.\<close>

definition toArticle :: "world \<Rightarrow> SerpApiNewsResult \<Rightarrow> state \<Rightarrow> Article \<times> state" where
  "toArticle w article s =
     (case now_ISOString w s of
        (stamp, s1) \<Rightarrow>
          (\<lparr>title = raw_title article,
            link = raw_link article,
            snippet = raw_snippet article,
            date = raw_date article,
            source = flattenSource (raw_source article),
            created_at = stamp\<rparr>, s1))"

fun mapArticles :: "world \<Rightarrow> SerpApiNewsResult list \<Rightarrow> state \<Rightarrow> Article list \<times> state" where
  "mapArticles w [] s = ([], s)"
| "mapArticles w (article # rest) s =
     (case toArticle w article s of
        (a, s1) \<Rightarrow> (case mapArticles w rest s1 of (as, s2) \<Rightarrow> (a # as, s2)))"

text \<open>The body of the \<open>try\<close> (lines 107 to 142).\<close>

definition fetchArticles_try ::
  "world \<Rightarrow> string \<Rightarrow> string \<Rightarrow> state \<Rightarrow> (js_error + Article list) \<times> state" where
  "fetchArticles_try w keyword language s =
     (let params = searchParams w keyword language;
          s1 = s\<lparr>trace := trace s @ [Fetch ''https://serpapi.com/search'' params]\<rparr>
      in case fetch w ''https://serpapi.com/search'' params of
           Rejects e \<Rightarrow> (Inl e, s1)
         | Resolves resp \<Rightarrow>
             if \<not> ok resp then
               (case text_body resp of
                  Inl e \<Rightarrow> (Inl e, s1)
                | Inr errorText \<Rightarrow> (Inr [], s1))
             else
               (case json_body resp of
                  Inl e \<Rightarrow> (Inl e, s1)
                | Inr NullData \<Rightarrow>
                    (Inl (Error ''TypeError'' ''Cannot read properties of null''), s1)
                | Inr (Data NoResults) \<Rightarrow> (Inr [], s1)
                | Inr (Data NotArray) \<Rightarrow> (Inr [], s1)
                | Inr (Data (Results rs)) \<Rightarrow>
                    (case mapArticles w rs s1 of (as, s2) \<Rightarrow> (Inr as, s2))))"

text \<open>The \<open>catch\<close> of lines 143 to 146 turns every throw of the body into the empty list.\<close>

definition fetchArticles ::
  "world \<Rightarrow> string \<Rightarrow> string \<Rightarrow> state \<Rightarrow> (js_error + Article list) \<times> state" where
  "fetchArticles w keyword language s =
     (case fetchArticles_try w keyword language s of
        (Inl error, s1) \<Rightarrow> (Inr [], s1)
      | (Inr as, s1) \<Rightarrow> (Inr as, s1))"

subsection \<open>createArticlesTable (lines 69 to 102)\<close>

text \<open>
  Reading an identifier that no scope of the module binds. \<open>createArticlesTable\<close> has no
  parameter, its \<open>try\<close> block declares nothing before line 78, and the module binds only
  its two imports and its top-level declarations (\<open>supabaseUrl\<close>, \<open>supabaseKey\<close>,
  \<open>serpApiKey\<close>, \<open>supabase\<close>, \<open>keywords\<close>, \<open>delay\<close> and the four functions). Such a
  name is looked up on the global object: a \<open>ReferenceError\<close> when it is not defined
  there.
\<close>

definition read_identifier :: "world \<Rightarrow> string \<Rightarrow> js_error + global_value" where
  "read_identifier w x =
     (case globalThis w x of
        None \<Rightarrow> Inl (Error ''ReferenceError'' (x @ '' is not defined''))
      | Some v \<Rightarrow> Inr v)"

text \<open>The template literal of lines 79 to 90.\<close>

definition create_articles_table_sql :: string where
  "create_articles_table_sql =
      [CHR 0x0A] @
      ''          CREATE TABLE IF NOT EXISTS articles ('' @
      [CHR 0x0A] @
      ''            id SERIAL PRIMARY KEY,'' @
      [CHR 0x0A] @
      ''            url TEXT NOT NULL UNIQUE,'' @
      [CHR 0x0A] @
      ''            title TEXT NOT NULL,'' @
      [CHR 0x0A] @
      ''            description TEXT,'' @
      [CHR 0x0A] @
      ''            image_url TEXT,'' @
      [CHR 0x0A] @
      ''            published_at TIMESTAMP WITH TIME ZONE DEFAULT CURRENT_TIMESTAMP,'' @
      [CHR 0x0A] @
      ''            created_at TIMESTAMP WITH TIME ZONE DEFAULT CURRENT_TIMESTAMP'' @
      [CHR 0x0A] @
      ''          );'' @
      [CHR 0x0A] @
      ''          CREATE INDEX IF NOT EXISTS articles_url_idx ON articles(url);'' @
      [CHR 0x0A] @
      ''        ''"

text \<open>
  Line 71 is the complete statement \<^verbatim>\<open>await response.json();\<close>, and \<open>response\<close> is not
  bound in the module. The member chain of lines 72 to 74 follows its semicolon and belongs
  to no statement, so the module issues no read of the table. Line 76 tests \<open>error\<close>, which
  the \<open>try\<close> block does not declare either (the \<open>error\<close> of line 98 is bound in the
  \<open>catch\<close> block only). The store client does not throw: line 95 throws the \<open>error\<close>
  member of its answer when that is set. Both \<open>catch\<close> blocks throw again what they
  caught.
\<close>

definition createArticlesTable :: "world \<Rightarrow> state \<Rightarrow> (js_error + unit) \<times> state" where
  "createArticlesTable w s =
     (case read_identifier w ''response'' of
        Inl e \<Rightarrow> (Inl e, s)
      | Inr response \<Rightarrow>
          (case json_call response of
             Some e \<Rightarrow> (Inl e, s)
           | None \<Rightarrow>
               (case read_identifier w ''error'' of
                  Inl e \<Rightarrow> (Inl e, s)
                | Inr error \<Rightarrow>
                    if truthy error then
                      (let s1 = s\<lparr>trace := trace s @
                                  [Rpc ''create_articles_table'' create_articles_table_sql]\<rparr>
                       in case rpc w ''create_articles_table'' create_articles_table_sql of
                            Some createError \<Rightarrow> (Inl createError, s1)
                          | None \<Rightarrow> (Inr (), s1))
                    else (Inr (), s))))"

subsection \<open>insertArticles (lines 150 to 190)\<close>

text \<open>
  The callback of \<open>map\<close> at lines 161 to 167. The properties are evaluated in order: a
  throw while \<open>published_at\<close> is computed leaves \<open>created_at\<close> unread. The test
  \<open>article.date ? ... : ...\<close> takes the second branch on the empty string.
\<close>

definition transformArticle :: "world \<Rightarrow> Article \<Rightarrow> state \<Rightarrow> (js_error + row) \<times> state" where
  "transformArticle w article s =
     (case (if date article \<noteq> [] then (toISOString w (new_Date_of w (date article)), s)
            else (case now_ISOString w s of (stamp, s1) \<Rightarrow> (Inr stamp, s1))) of
        (Inl e, s1) \<Rightarrow> (Inl e, s1)
      | (Inr published, s1) \<Rightarrow>
          (case now_ISOString w s1 of
             (stamp, s2) \<Rightarrow>
               (Inr \<lparr>url = link article,
                     row_title = title article,
                     description = snippet article,
                     published_at = published,
                     row_created_at = stamp\<rparr>, s2)))"

fun transformArticles :: "world \<Rightarrow> Article list \<Rightarrow> state \<Rightarrow> (js_error + row list) \<times> state" where
  "transformArticles w [] s = (Inr [], s)"
| "transformArticles w (article # rest) s =
     (case transformArticle w article s of
        (Inl e, s1) \<Rightarrow> (Inl e, s1)
      | (Inr r, s1) \<Rightarrow>
          (case transformArticles w rest s1 of
             (Inl e, s2) \<Rightarrow> (Inl e, s2)
           | (Inr rs, s2) \<Rightarrow> (Inr (r # rs), s2)))"

text \<open>
  The store client does not throw: it answers with an \<open>error\<close> member, which line 182
  throws when it is set. The \<open>catch\<close> of lines 186 to 189 throws again what it caught.
\<close>

definition insertArticles :: "world \<Rightarrow> Article list \<Rightarrow> state \<Rightarrow> (js_error + unit) \<times> state" where
  "insertArticles w articles s =
     (if length articles = 0 then (Inr (), s)
      else
        (case createArticlesTable w s of
           (Inl e, s1) \<Rightarrow> (Inl e, s1)
         | (Inr _, s1) \<Rightarrow>
             (case transformArticles w articles s1 of
                (Inl e, s2) \<Rightarrow> (Inl e, s2)
              | (Inr transformedArticles, s2) \<Rightarrow>
                  (let s3 = s2\<lparr>trace := trace s2 @
                              [Upsert ''articles'' transformedArticles ''url'' True]\<rparr>
                   in case upsert w transformedArticles of
                        Some error \<Rightarrow> (Inl error, s3)
                      | None \<Rightarrow> (Inr (), s3)))))"

subsection \<open>POST (lines 192 to 231)\<close>

text \<open>A number inside a template literal: its decimal digits.\<close>

fun string_of_nat :: "nat \<Rightarrow> string" where
  "string_of_nat n =
     (if n < 10 then [''0123456789'' ! n]
      else string_of_nat (n div 10) @ [''0123456789'' ! (n mod 10)])"

declare string_of_nat.simps [simp del]

text \<open>Line 226: \<^verbatim>\<open>error instanceof Error ? error.message : String(error)\<close>.\<close>

definition details_of :: "js_error \<Rightarrow> string" where
  "details_of error = (case error of Error name message \<Rightarrow> message | Thrown str \<Rightarrow> str)"

text \<open>The inner loop (lines 198 to 204) over the keywords of one language.\<close>

fun processKeywords ::
  "world \<Rightarrow> string \<Rightarrow> string list \<Rightarrow> Article list \<Rightarrow> state \<Rightarrow> (js_error + Article list) \<times> state" where
  "processKeywords w lang [] allArticles s = (Inr allArticles, s)"
| "processKeywords w lang (keyword # rest) allArticles s =
     (case fetchArticles w keyword lang s of
        (Inl e, s1) \<Rightarrow> (Inl e, s1)
      | (Inr articles, s1) \<Rightarrow>
          processKeywords w lang rest
            (if length articles > 0 then allArticles @ articles else allArticles)
            (s1\<lparr>trace := trace s1 @ [Delay 1000]\<rparr>))"

text \<open>The outer loop (line 197) over the entries of the catalog.\<close>

fun processLanguages ::
  "world \<Rightarrow> (string \<times> string list) list \<Rightarrow> Article list \<Rightarrow> state \<Rightarrow>
     (js_error + Article list) \<times> state" where
  "processLanguages w [] allArticles s = (Inr allArticles, s)"
| "processLanguages w ((lang, langKeywords) # rest) allArticles s =
     (case processKeywords w lang langKeywords allArticles s of
        (Inl e, s1) \<Rightarrow> (Inl e, s1)
      | (Inr allArticles1, s1) \<Rightarrow> processLanguages w rest allArticles1 s1)"

text \<open>The body of the \<open>try\<close> (lines 194 to 220).\<close>

definition POST_try :: "world \<Rightarrow> state \<Rightarrow> (js_error + reply) \<times> state" where
  "POST_try w s =
     (case processLanguages w keywords_catalog [] s of
        (Inl e, s1) \<Rightarrow> (Inl e, s1)
      | (Inr allArticles, s1) \<Rightarrow>
          if length allArticles = 0 then
            (Inr \<lparr>status = 404, body = Summary False ''No articles found''\<rparr>, s1)
          else
            (case insertArticles w allArticles s1 of
               (Inl e, s2) \<Rightarrow> (Inl e, s2)
             | (Inr _, s2) \<Rightarrow>
                 (Inr \<lparr>status = 200,
                       body = Summary True
                         (''Successfully processed '' @ string_of_nat (length allArticles) @
                          '' articles'')\<rparr>, s2)))"

text \<open>The \<open>catch\<close> of lines 221 to 230 answers every throw of the body with status 500.\<close>

definition POST :: "world \<Rightarrow> state \<Rightarrow> (js_error + reply) \<times> state" where
  "POST w s =
     (case POST_try w s of
        (Inl error, s1) \<Rightarrow>
          (Inr \<lparr>status = 500,
                body = Failure ''Failed to process articles'' (details_of error)\<rparr>, s1)
      | (Inr r, s1) \<Rightarrow> (Inr r, s1))"

section \<open>Notions the properties are stated with\<close>

text \<open>
  The results that the news source's answer for a keyword carries: those of a success
  response whose body parses to an object with an array \<open>news_results\<close>, and none
  otherwise.
\<close>

definition contribution :: "world \<Rightarrow> string \<Rightarrow> string \<Rightarrow> SerpApiNewsResult list" where
  "contribution w keyword language =
     (case fetch w ''https://serpapi.com/search'' (searchParams w keyword language) of
        Rejects e \<Rightarrow> []
      | Resolves resp \<Rightarrow>
          if ok resp then
            (case json_body resp of Inr (Data (Results rs)) \<Rightarrow> rs | _ \<Rightarrow> [])
          else [])"

text \<open>One request and one pause of 1000 milliseconds per keyword, in list order.\<close>

definition requests_of :: "world \<Rightarrow> string \<Rightarrow> string list \<Rightarrow> event list" where
  "requests_of w lang ks =
     concat (map (\<lambda>k. [Fetch ''https://serpapi.com/search'' (searchParams w k lang), Delay 1000]) ks)"

definition catalog_requests :: "world \<Rightarrow> (string \<times> string list) list \<Rightarrow> event list" where
  "catalog_requests w cat = concat (map (\<lambda>(lang, ks). requests_of w lang ks) cat)"

text \<open>The links of the results carried for the keywords of a catalog, in catalog order.\<close>

definition catalog_links :: "world \<Rightarrow> (string \<times> string list) list \<Rightarrow> string list" where
  "catalog_links w cat =
     concat (map (\<lambda>(lang, ks). concat (map (\<lambda>k. map raw_link (contribution w k lang)) ks)) cat)"


section \<open>A sample run\<close>

text \<open>
  A news source that answers the first French keyword with a server error, the second with
  five results (one for each shape of \<open>source\<close>, the first with a relative date), the third
  without \<open>news_results\<close>, rejects the request for the fifth, answers the first Spanish
  keyword with a body that does not parse, and every other keyword with a \<open>news_results\<close>
  that is not an array. The data store accepts every call. The clock starts at
  2024-05-01T10:00:00Z and advances by one second per reading; the date parser accepts
  that one timestamp; time values are rendered as their decimal digits. The global object
  defines neither \<open>response\<close> nor \<open>error\<close>.
\<close>

definition sample_results :: "SerpApiNewsResult list" where
  "sample_results =
     [\<lparr>raw_title = ''Exercice naval'', raw_link = ''https://example.org/a'',
       raw_snippet = ''Un exercice'', raw_date = ''2 hours ago'',
       raw_source = SourceString ''Le Matin''\<rparr>,
      \<lparr>raw_title = ''Nouvelle fregate'', raw_link = ''https://example.org/b'',
       raw_snippet = ''Une fregate'', raw_date = ''2024-05-01T10:00:00Z'',
       raw_source = SourceObject (Some ''Hespress'')\<rparr>,
      \<lparr>raw_title = ''Patrouille'', raw_link = ''https://example.org/c'',
       raw_snippet = ''Une patrouille'', raw_date = [],
       raw_source = SourceObject (Some [])\<rparr>,
      \<lparr>raw_title = ''Escale'', raw_link = ''https://example.org/d'',
       raw_snippet = ''Une escale'', raw_date = [],
       raw_source = SourceObject None\<rparr>,
      \<lparr>raw_title = ''Sauvetage'', raw_link = ''https://example.org/e'',
       raw_snippet = ''Un sauvetage'', raw_date = [],
       raw_source = SourceAbsent\<rparr>]"

definition sample_fetch :: "string \<Rightarrow> (string \<times> string) list \<Rightarrow> fetch_outcome" where
  "sample_fetch u params =
     (if map_of params ''q'' = Some ''La Marine royale'' then
        Resolves \<lparr>ok = False, text_body = Inr ''Internal Server Error'',
                  json_body = Inl (Error ''SyntaxError'' ''Unexpected token'')\<rparr>
      else if map_of params ''q'' = Some ''La Marine Royale Marocaine'' then
        Resolves \<lparr>ok = True, text_body = Inr [], json_body = Inr (Data (Results sample_results))\<rparr>
      else if map_of params ''q'' = Some ''La Marine marocaine'' then
        Resolves \<lparr>ok = True, text_body = Inr [], json_body = Inr (Data NoResults)\<rparr>
      else if map_of params ''q'' = Some ''Force Navale Marocaine'' then
        Rejects (Error ''TypeError'' ''fetch failed'')
      else if map_of params ''q'' = Some ''la Marina Real'' then
        Resolves \<lparr>ok = True, text_body = Inr [],
                  json_body = Inl (Error ''SyntaxError'' ''Unexpected end of JSON input'')\<rparr>
      else
        Resolves \<lparr>ok = True, text_body = Inr [], json_body = Inr (Data NotArray)\<rparr>)"

definition world_sample :: world where
  "world_sample =
     \<lparr>serpApiKey = ''secret'',
      fetch = sample_fetch,
      Date_now = (\<lambda>n. 1714557600000 + 1000 * int n),
      Date_parse = (\<lambda>str. if str = ''2024-05-01T10:00:00Z'' then Some 1714557600000 else None),
      iso = (\<lambda>t. string_of_nat (nat t)),
      rpc = (\<lambda>name sql. None),
      upsert = (\<lambda>rows. None),
      globalThis = (\<lambda>x. None)\<rparr>"

text \<open>The five articles \<open>fetchArticles\<close> makes of the sample results when the clock is fresh.\<close>

definition sample_articles :: "Article list" where
  "sample_articles =
     [\<lparr>title = ''Exercice naval'', link = ''https://example.org/a'', snippet = ''Un exercice'',
       date = ''2 hours ago'', source = ''Le Matin'', created_at = ''1714557600000''\<rparr>,
      \<lparr>title = ''Nouvelle fregate'', link = ''https://example.org/b'', snippet = ''Une fregate'',
       date = ''2024-05-01T10:00:00Z'', source = ''Hespress'', created_at = ''1714557601000''\<rparr>,
      \<lparr>title = ''Patrouille'', link = ''https://example.org/c'', snippet = ''Une patrouille'',
       date = [], source = ''Unknown'', created_at = ''1714557602000''\<rparr>,
      \<lparr>title = ''Escale'', link = ''https://example.org/d'', snippet = ''Une escale'',
       date = [], source = ''Unknown'', created_at = ''1714557603000''\<rparr>,
      \<lparr>title = ''Sauvetage'', link = ''https://example.org/e'', snippet = ''Un sauvetage'',
       date = [], source = ''Unknown'', created_at = ''1714557604000''\<rparr>]"

text \<open>A news source that answers every request with a server error.\<close>

definition world_silent :: world where
  "world_silent =
     world_sample\<lparr>fetch := (\<lambda>u params.
        Resolves \<lparr>ok = False, text_body = Inr ''Internal Server Error'',
                  json_body = Inl (Error ''SyntaxError'' ''Unexpected token'')\<rparr>)\<rparr>"

definition fresh_state :: state where
  "fresh_state = \<lparr>ticks = 0, trace = []\<rparr>"






section \<open>Lemmas\<close>

subsection \<open>fetchArticles\<close>

lemma toArticle_state: "snd (toArticle w r s) = s\<lparr>ticks := Suc (ticks s)\<rparr>"
  by (simp add: toArticle_def now_ISOString_def)

lemma toArticle_fields:
  "link (fst (toArticle w r s)) = raw_link r"
  "source (fst (toArticle w r s)) = flattenSource (raw_source r)"
  by (simp_all add: toArticle_def now_ISOString_def)

lemma mapArticles_trace: "trace (snd (mapArticles w rs s)) = trace s"
proof (induction rs arbitrary: s)
  case Nil
  show ?case by simp
next
  case (Cons r rs)
  have "trace (snd (mapArticles w rs (snd (toArticle w r s)))) = trace s"
    by (simp add: Cons.IH toArticle_state)
  then show ?case
    by (simp split: prod.splits) (metis snd_conv)
qed

lemma mapArticles_link: "map link (fst (mapArticles w rs s)) = map raw_link rs"
proof (induction rs arbitrary: s)
  case Nil
  show ?case by simp
next
  case (Cons r rs)
  show ?case
    using Cons.IH [of "snd (toArticle w r s)"] toArticle_fields(1) [of w r s]
    by (auto split: prod.splits)
qed


lemma mapArticles_source:
  "map source (fst (mapArticles w rs s)) = map (\<lambda>r. flattenSource (raw_source r)) rs"
proof (induction rs arbitrary: s)
  case Nil
  show ?case by simp
next
  case (Cons r rs)
  show ?case
    using Cons.IH [of "snd (toArticle w r s)"] toArticle_fields(2) [of w r s]
    by (auto split: prod.splits)
qed

lemma fetchArticles_eq:
  "fetchArticles w k l s =
     (Inr (fst (mapArticles w (contribution w k l)
             (s\<lparr>trace := trace s @ [Fetch ''https://serpapi.com/search'' (searchParams w k l)]\<rparr>))),
      snd (mapArticles w (contribution w k l)
             (s\<lparr>trace := trace s @ [Fetch ''https://serpapi.com/search'' (searchParams w k l)]\<rparr>)))"
  by (simp add: fetchArticles_def fetchArticles_try_def contribution_def Let_def
      split: fetch_outcome.splits sum.splits response_data.splits news_results.splits prod.splits)

lemma fetchArticles_trace:
  "trace (snd (fetchArticles w k l s)) =
     trace s @ [Fetch ''https://serpapi.com/search'' (searchParams w k l)]"
  by (simp add: fetchArticles_eq mapArticles_trace)

lemma fetchArticles_returns: "\<exists>as. fst (fetchArticles w k l s) = Inr as"
  by (simp add: fetchArticles_eq)

lemma fetchArticles_link:
  "fst (fetchArticles w k l s) = Inr as \<Longrightarrow> map link as = map raw_link (contribution w k l)"
  by (auto simp: fetchArticles_eq mapArticles_link)


lemma fetchArticles_source:
  "fst (fetchArticles w k l s) = Inr as \<Longrightarrow>
     map source as = map (\<lambda>r. flattenSource (raw_source r)) (contribution w k l)"
  by (auto simp: fetchArticles_eq mapArticles_source)

lemma searchParams_hl:
  "map_of (searchParams w keyword language) ''hl'' =
     Some (if language = ''arabic'' then ''ar'' else if language = ''french'' then ''fr'' else ''es'')"
  by (simp add: searchParams_def)

lemma flattenSource_cases:
  "flattenSource (SourceString str) = str"
  "t \<noteq> [] \<Longrightarrow> flattenSource (SourceObject (Some t)) = t"
  "flattenSource (SourceObject (Some [])) = ''Unknown''"
  "flattenSource (SourceObject None) = ''Unknown''"
  "flattenSource SourceAbsent = ''Unknown''"
  by (simp_all add: flattenSource_def)

lemma contribution_Results:
  "fetch w ''https://serpapi.com/search'' (searchParams w keyword language) = Resolves resp \<Longrightarrow>
   ok resp \<Longrightarrow> json_body resp = Inr (Data (Results rs)) \<Longrightarrow>
   contribution w keyword language = rs"
  by (simp add: contribution_def)

lemma contribution_failed:
  "(\<exists>e. fetch w ''https://serpapi.com/search'' (searchParams w keyword language) = Rejects e) \<or>
   (\<exists>resp. fetch w ''https://serpapi.com/search'' (searchParams w keyword language) = Resolves resp \<and>
      (\<not> ok resp \<or> (\<exists>e. json_body resp = Inl e) \<or> json_body resp = Inr NullData \<or>
       json_body resp = Inr (Data NoResults) \<or> json_body resp = Inr (Data NotArray))) \<Longrightarrow>
   contribution w keyword language = []"
  by (auto simp: contribution_def)

lemma fetchArticles_empty:
  "contribution w keyword language = [] \<Longrightarrow> fst (fetchArticles w keyword language s) = Inr []"
  by (simp add: fetchArticles_eq)

lemma fetchArticles_empty_iff:
  "fst (fetchArticles w k l s) = Inr [] \<Longrightarrow> contribution w k l = []"
  using fetchArticles_link [of w k l s "[]"] by simp

subsection \<open>The loops of POST\<close>

lemma processKeywords_run:
  "\<exists>all'. fst (processKeywords w lang ks all s) = Inr all' \<and>
      map link all' = map link all @ concat (map (\<lambda>k. map raw_link (contribution w k lang)) ks) \<and>
      trace (snd (processKeywords w lang ks all s)) = trace s @ requests_of w lang ks"
proof (induction ks arbitrary: all s)
  case Nil
  show ?case by (simp add: requests_of_def)
next
  case (Cons k ks)
  obtain as s1 where f: "fetchArticles w k lang s = (Inr as, s1)"
    using fetchArticles_returns [of w k lang s] by (metis fst_conv surj_pair)
  have l: "map link as = map raw_link (contribution w k lang)"
    using fetchArticles_link [of w k lang s as] f by simp
  have t: "trace s1 = trace s @ [Fetch ''https://serpapi.com/search'' (searchParams w k lang)]"
    using fetchArticles_trace [of w k lang s] f by simp
  have e: "map link (if length as > 0 then all @ as else all) = map link all @ map link as"
    by simp
  show ?case
    using Cons.IH [of "if length as > 0 then all @ as else all" "s1\<lparr>trace := trace s1 @ [Delay 1000]\<rparr>"]
    by (simp only: processKeywords.simps f prod.case sum.case e l) (auto simp: t requests_of_def)
qed

lemma processLanguages_run:
  "\<exists>all'. fst (processLanguages w cat all s) = Inr all' \<and>
      map link all' = map link all @ catalog_links w cat \<and>
      trace (snd (processLanguages w cat all s)) = trace s @ catalog_requests w cat"
proof (induction cat arbitrary: all s)
  case Nil
  show ?case by (simp add: catalog_links_def catalog_requests_def)
next
  case (Cons entry cat)
  obtain lang ks where entry: "entry = (lang, ks)" by (cases entry)
  obtain all1 where
    r: "fst (processKeywords w lang ks all s) = Inr all1" and
    l: "map link all1 = map link all @ concat (map (\<lambda>k. map raw_link (contribution w k lang)) ks)" and
    t: "trace (snd (processKeywords w lang ks all s)) = trace s @ requests_of w lang ks"
    using processKeywords_run [of w lang ks all s] by blast
  obtain s1 where p: "processKeywords w lang ks all s = (Inr all1, s1)"
    using r by (metis fst_conv surj_pair)
  have t1: "trace s1 = trace s @ requests_of w lang ks"
    using t p by simp
  show ?case
    using Cons.IH [of all1 s1]
    by (simp only: entry processLanguages.simps p prod.case sum.case)
       (auto simp: l t1 catalog_links_def catalog_requests_def)
qed



lemma catalog_links_empty:
  "(\<And>lang ks k. (lang, ks) \<in> set cat \<Longrightarrow> k \<in> set ks \<Longrightarrow> contribution w k lang = []) \<Longrightarrow>
   catalog_links w cat = []"
  by (auto simp: catalog_links_def)

subsection \<open>The catalog and its requests\<close>

lemma catalog_shape:
  "map fst keywords_catalog = [''arabic'', ''french'', ''spanish'']"
  "map (\<lambda>entry. length (snd entry)) keywords_catalog = [6, 7, 7]"
  by (simp_all add: keywords_catalog_def arabic_keywords_def french_keywords_def
      spanish_keywords_def)

lemma requests_of_count: "length (filter is_Fetch (requests_of w lang ks)) = length ks"
  by (induction ks) (simp_all add: requests_of_def)

lemma catalog_requests_count:
  "length (filter is_Fetch (catalog_requests w cat)) = sum_list (map (\<lambda>entry. length (snd entry)) cat)"
  by (induction cat) (auto simp: catalog_requests_def requests_of_count)

lemma catalog_requests_set:
  "e \<in> set (catalog_requests w cat) \<Longrightarrow> is_Fetch e \<or> is_Delay e"
  by (auto simp: catalog_requests_def requests_of_def)

lemma no_store_calls_in_requests:
  "filter (\<lambda>e. is_Rpc e \<or> is_Upsert e) (catalog_requests w cat) = []"
  "filter is_Rpc (catalog_requests w cat) = []"
  "filter is_Upsert (catalog_requests w cat) = []"
  by (auto simp: filter_empty_conv dest: catalog_requests_set)

lemma only_requests_in_requests:
  "filter (\<lambda>e. is_Fetch e \<or> is_Delay e) (catalog_requests w cat) = catalog_requests w cat"
  by (auto simp: filter_id_conv dest: catalog_requests_set)

subsection \<open>createArticlesTable and insertArticles\<close>

lemma createArticlesTable_unbound:
  "globalThis w ''response'' = None \<Longrightarrow>
   createArticlesTable w s = (Inl (Error ''ReferenceError'' ''response is not defined''), s)"
  by (simp add: createArticlesTable_def read_identifier_def)



lemma createArticlesTable_trace:
  "\<exists>es. trace (snd (createArticlesTable w s)) = trace s @ es \<and>
      filter (\<lambda>e. is_Fetch e \<or> is_Delay e) es = [] \<and> filter is_Upsert es = [] \<and>
      length (filter is_Rpc es) \<le> 1"
  by (auto simp: createArticlesTable_def Let_def split: sum.splits option.splits)


lemma insertArticles_unbound:
  "articles \<noteq> [] \<Longrightarrow> globalThis w ''response'' = None \<Longrightarrow>
   insertArticles w articles s = (Inl (Error ''ReferenceError'' ''response is not defined''), s)"
  by (simp add: insertArticles_def createArticlesTable_unbound)


lemma transformArticle_unparsable:
  "date article \<noteq> [] \<Longrightarrow> Date_parse w (date article) = None \<Longrightarrow>
   transformArticle w article s = (Inl (Error ''RangeError'' ''Invalid time value''), s)"
  by (simp add: transformArticle_def toISOString_def new_Date_of_def)

lemma transformArticle_no_date:
  "date article = [] \<Longrightarrow>
   transformArticle w article s =
     (Inr \<lparr>url = link article, row_title = title article, description = snippet article,
           published_at = iso w (Date_now w (ticks s)),
           row_created_at = iso w (Date_now w (Suc (ticks s)))\<rparr>,
      s\<lparr>ticks := Suc (Suc (ticks s))\<rparr>)"
  by (simp add: transformArticle_def now_ISOString_def)

lemma transformArticle_trace: "trace (snd (transformArticle w article s)) = trace s"
  by (simp add: transformArticle_def now_ISOString_def toISOString_def new_Date_of_def
      split: option.splits)

lemma transformArticles_trace: "trace (snd (transformArticles w articles s)) = trace s"
proof (induction articles arbitrary: s)
  case Nil
  show ?case by simp
next
  case (Cons article articles)
  have "trace (snd (transformArticles w articles (snd (transformArticle w article s)))) = trace s"
    by (simp add: Cons.IH transformArticle_trace)
  moreover have "trace (snd (transformArticle w article s)) = trace s"
    by (rule transformArticle_trace)
  ultimately show ?case
    by (auto split: prod.splits sum.splits)
qed



lemma insertArticles_trace:
  "\<exists>es. trace (snd (insertArticles w articles s)) = trace s @ es \<and>
      filter (\<lambda>e. is_Fetch e \<or> is_Delay e) es = [] \<and>
      length (filter is_Rpc es) \<le> 1 \<and> length (filter is_Upsert es) \<le> 1"
proof (cases "articles = []")
  case True
  then show ?thesis by (simp add: insertArticles_def)
next
  case False
  obtain es where
    es: "trace (snd (createArticlesTable w s)) = trace s @ es" and
    p: "filter (\<lambda>e. is_Fetch e \<or> is_Delay e) es = []" and
    u: "filter is_Upsert es = []" and
    r: "length (filter is_Rpc es) \<le> 1"
    using createArticlesTable_trace [of w s] by blast
  obtain c s1 where c: "createArticlesTable w s = (c, s1)"
    by (cases "createArticlesTable w s")
  have t1: "trace s1 = trace s @ es"
    using es c by simp
  show ?thesis
  proof (cases c)
    case (Inl e)
    then show ?thesis
      using False c t1 p u r by (auto simp: insertArticles_def)
  next
    case (Inr x)
    obtain d s2 where d: "transformArticles w articles s1 = (d, s2)"
      by (cases "transformArticles w articles s1")
    have t2: "trace s2 = trace s @ es"
      using transformArticles_trace [of w articles s1] d t1 by simp
    show ?thesis
    proof (cases d)
      case (Inl e)
      then show ?thesis
        using False c Inr d t2 p u r by (auto simp: insertArticles_def)
    next
      case (Inr rows)
      have "trace (snd (insertArticles w articles s)) =
          trace s @ es @ [Upsert ''articles'' rows ''url'' True]"
        using False c \<open>c = Inr x\<close> d Inr t2
        by (auto simp: insertArticles_def Let_def split: option.splits)
      then show ?thesis
        using p u r by auto
    qed
  qed
qed

lemma transformArticle_fields:
  "transformArticle w article s = (Inr r, s') \<Longrightarrow>
   url r = link article \<and> row_title r = title article \<and> description r = snippet article"
  by (auto simp: transformArticle_def now_ISOString_def toISOString_def
      split: if_splits sum.splits prod.splits Date.splits)

lemma transformArticles_fields:
  "transformArticles w articles s = (Inr rows, s') \<Longrightarrow>
   map url rows = map link articles \<and> map row_title rows = map title articles \<and>
   map description rows = map snippet articles"
proof (induction articles arbitrary: s rows s')
  case Nil
  then show ?case by simp
next
  case (Cons article articles)
  from Cons.prems obtain r s1 rs where
    a: "transformArticle w article s = (Inr r, s1)" and
    b: "transformArticles w articles s1 = (Inr rs, s')" and
    c: "rows = r # rs"
    by (auto split: prod.splits sum.splits)
  show ?case
    using transformArticle_fields [OF a] Cons.IH [OF b] c by simp
qed

subsection \<open>POST\<close>

lemma POST_try_trace:
  "\<exists>es. trace (snd (POST_try w s)) = trace s @ catalog_requests w keywords_catalog @ es \<and>
      filter (\<lambda>e. is_Fetch e \<or> is_Delay e) es = [] \<and>
      length (filter is_Rpc es) \<le> 1 \<and> length (filter is_Upsert es) \<le> 1"
proof -
  obtain all1 s1 where p: "processLanguages w keywords_catalog [] s = (Inr all1, s1)"
    using processLanguages_run [of w keywords_catalog "[]" s] by (metis fst_conv surj_pair)
  have t1: "trace s1 = trace s @ catalog_requests w keywords_catalog"
    using processLanguages_run [of w keywords_catalog "[]" s] p by simp
  show ?thesis
  proof (cases "all1 = []")
    case True
    then show ?thesis
      by (simp add: POST_try_def p t1)
  next
    case False
    obtain es where
      es: "trace (snd (insertArticles w all1 s1)) = trace s1 @ es" and
      c: "filter (\<lambda>e. is_Fetch e \<or> is_Delay e) es = []"
         "length (filter is_Rpc es) \<le> 1" "length (filter is_Upsert es) \<le> 1"
      using insertArticles_trace [of w all1 s1] by blast
    have "trace (snd (POST_try w s)) = trace s @ catalog_requests w keywords_catalog @ es"
      using False es by (auto simp: POST_try_def p t1 split: prod.splits sum.splits)
    then show ?thesis
      using c by blast
  qed
qed

lemma POST_trace:
  "\<exists>es. trace (snd (POST w s)) = trace s @ catalog_requests w keywords_catalog @ es \<and>
      filter (\<lambda>e. is_Fetch e \<or> is_Delay e) es = [] \<and>
      length (filter is_Rpc es) \<le> 1 \<and> length (filter is_Upsert es) \<le> 1"
proof -
  have "snd (POST w s) = snd (POST_try w s)"
    by (auto simp: POST_def split: prod.splits sum.splits)
  then show ?thesis
    using POST_try_trace [of w s] by simp
qed


lemma POST_no_articles_trace:
  "fst (processLanguages w keywords_catalog [] s) = Inr [] \<Longrightarrow>
   trace (snd (POST w s)) = trace s @ catalog_requests w keywords_catalog"
  using processLanguages_run [of w keywords_catalog "[]" s]
  by (auto simp: POST_def POST_try_def split: prod.splits sum.splits)

lemma POST_no_articles:
  "fst (processLanguages w keywords_catalog [] s) = Inr [] \<Longrightarrow>
   fst (POST w s) = Inr \<lparr>status = 404, body = Summary False ''No articles found''\<rparr>"
  by (auto simp: POST_def POST_try_def split: prod.splits sum.splits)



subsection \<open>The sample run\<close>

lemma sample_contributions:
  "catalog_links world_sample keywords_catalog =
     [''https://example.org/a'', ''https://example.org/b'', ''https://example.org/c'',
      ''https://example.org/d'', ''https://example.org/e'']"
  by (simp add: catalog_links_def keywords_catalog_def arabic_keywords_def french_keywords_def
      spanish_keywords_def contribution_def world_sample_def sample_fetch_def searchParams_def
      sample_results_def)

lemma sample_articles_fetched:
  "fst (fetchArticles world_sample ''La Marine Royale Marocaine'' ''french'' fresh_state) =
     Inr sample_articles"
  by (simp add: fetchArticles_eq contribution_def world_sample_def sample_fetch_def
      searchParams_def sample_results_def sample_articles_def fresh_state_def toArticle_def
      now_ISOString_def flattenSource_def string_of_nat.simps)

subsection \<open>The run that reaches the data store\<close>





section \<open>Properties\<close>

text \<open>
  C1, as amended. When the news source answers a search with a list of results,
  \<open>fetchArticles\<close> returns one article per result, in order, and the \<open>source\<close> of each is:
  the raw \<open>source\<close> itself when that is a string; the nested \<open>title\<close> when the raw \<open>source\<close>
  is an object whose \<open>title\<close> is a non-empty string; and the literal \<open>Unknown\<close> when the raw
  \<open>source\<close> is an object whose \<open>title\<close> is empty or missing, or when there is no \<open>source\<close>.
\<close>

theorem fetchArticles_flattens_source:
  assumes "fetch w ''https://serpapi.com/search'' (searchParams w keyword language) = Resolves resp"
    and "ok resp"
    and "json_body resp = Inr (Data (Results rs))"
  shows "\<exists>as. fst (fetchArticles w keyword language s) = Inr as \<and> length as = length rs \<and>
           (\<forall>i<length rs.
              (\<forall>str. raw_source (rs ! i) = SourceString str \<longrightarrow> source (as ! i) = str) \<and>
              (\<forall>t. t \<noteq> [] \<and> raw_source (rs ! i) = SourceObject (Some t) \<longrightarrow> source (as ! i) = t) \<and>
              (raw_source (rs ! i) = SourceObject (Some []) \<or>
               raw_source (rs ! i) = SourceObject None \<or>
               raw_source (rs ! i) = SourceAbsent \<longrightarrow> source (as ! i) = ''Unknown''))"
proof -
  obtain as where as: "fst (fetchArticles w keyword language s) = Inr as"
    using fetchArticles_returns by blast
  have c: "contribution w keyword language = rs"
    using assms by (rule contribution_Results)
  have m: "map source as = map (\<lambda>r. flattenSource (raw_source r)) rs"
    using fetchArticles_source [OF as] c by simp
  have len: "length as = length rs"
    using m by (metis length_map)
  have nth: "source (as ! i) = flattenSource (raw_source (rs ! i))" if "i < length rs" for i
    using m that len by (metis nth_map)
  show ?thesis
    using as len nth by (auto simp: flattenSource_cases)
qed

text \<open>
  C1, on a sample answer with five results, one for each shape of \<open>source\<close>.
\<close>

theorem fetchArticles_flattens_source_witness:
  "\<exists>as. fst (fetchArticles world_sample ''La Marine Royale Marocaine'' ''french'' fresh_state) = Inr as \<and>
     length as = 5 \<and> source (as ! 0) = ''Le Matin'' \<and> source (as ! 1) = ''Hespress'' \<and>
     source (as ! 2) = ''Unknown'' \<and> source (as ! 3) = ''Unknown'' \<and> source (as ! 4) = ''Unknown''"
proof -
  let ?resp = "\<lparr>ok = True, text_body = Inr [], json_body = Inr (Data (Results sample_results))\<rparr>"
  have h1: "fetch world_sample ''https://serpapi.com/search''
              (searchParams world_sample ''La Marine Royale Marocaine'' ''french'') = Resolves ?resp"
    by (simp add: world_sample_def sample_fetch_def searchParams_def)
  have h2: "ok ?resp" by simp
  have h3: "json_body ?resp = Inr (Data (Results sample_results))" by simp
  obtain as where
    as: "fst (fetchArticles world_sample ''La Marine Royale Marocaine'' ''french'' fresh_state) = Inr as"
    and len: "length as = length sample_results"
    and each: "\<forall>i<length sample_results.
              (\<forall>str. raw_source (sample_results ! i) = SourceString str \<longrightarrow> source (as ! i) = str) \<and>
              (\<forall>t. t \<noteq> [] \<and> raw_source (sample_results ! i) = SourceObject (Some t) \<longrightarrow> source (as ! i) = t) \<and>
              (raw_source (sample_results ! i) = SourceObject (Some []) \<or>
               raw_source (sample_results ! i) = SourceObject None \<or>
               raw_source (sample_results ! i) = SourceAbsent \<longrightarrow> source (as ! i) = ''Unknown'')"
    using fetchArticles_flattens_source [OF h1 h2 h3, of fresh_state] by blast
  have n: "length sample_results = 5" by (simp add: sample_results_def)
  have "source (as ! 0) = ''Le Matin''"
    using each [rule_format, of 0] by (simp add: sample_results_def)
  moreover have "source (as ! 1) = ''Hespress''"
    using each [rule_format, of 1] by (simp add: sample_results_def)
  moreover have "source (as ! 2) = ''Unknown''"
    using each [rule_format, of 2] by (simp add: sample_results_def)
  moreover have "source (as ! 3) = ''Unknown''"
    using each [rule_format, of 3] by (simp add: sample_results_def)
  moreover have "source (as ! 4) = ''Unknown''"
    using each [rule_format, of 4] by (simp add: sample_results_def)
  ultimately show ?thesis
    using as len n by simp
qed

text \<open>
  C1, as stated, fails on a result whose \<open>source\<close> is an object with the empty string as
  \<open>title\<close>: the article's \<open>source\<close> is \<open>Unknown\<close>, not the nested title.
\<close>

theorem flattens_empty_title_counterexample:
  "source (fst (toArticle world_sample
       \<lparr>raw_title = ''Patrouille'', raw_link = ''https://example.org/c'',
        raw_snippet = ''Une patrouille'', raw_date = [],
        raw_source = SourceObject (Some [])\<rparr> fresh_state)) = ''Unknown'' \<and>
   source (fst (toArticle world_sample
       \<lparr>raw_title = ''Patrouille'', raw_link = ''https://example.org/c'',
        raw_snippet = ''Une patrouille'', raw_date = [],
        raw_source = SourceObject (Some [])\<rparr> fresh_state)) \<noteq> []"
  by (simp add: toArticle_def now_ISOString_def flattenSource_def)

text \<open>
  C2, evaluated. On an article whose \<open>date\<close> is the non-empty string \<open>2 hours ago\<close>, which
  the date parser rejects, the projection of lines 161 to 167 throws a \<open>RangeError\<close> and
  yields no row. The fallback to the clock is taken on an article whose \<open>date\<close> is empty.
\<close>

theorem transformArticles_unparsable_date:
  "transformArticles world_sample
     [\<lparr>title = ''Exercice naval'', link = ''https://example.org/a'', snippet = ''Un exercice'',
       date = ''2 hours ago'', source = ''Le Matin'', created_at = ''1714557600000''\<rparr>]
     fresh_state =
   (Inl (Error ''RangeError'' ''Invalid time value''), fresh_state) \<and>
   fst (transformArticles world_sample
     [\<lparr>title = ''Patrouille'', link = ''https://example.org/c'', snippet = ''Une patrouille'',
       date = [], source = ''Unknown'', created_at = ''1714557602000''\<rparr>]
     fresh_state) =
   Inr [\<lparr>url = ''https://example.org/c'', row_title = ''Patrouille'',
         description = ''Une patrouille'', published_at = ''1714557600000'',
         row_created_at = ''1714557601000''\<rparr>]"
proof -
  have p: "Date_parse world_sample ''2 hours ago'' = None"
    by (simp add: world_sample_def)
  have n: "iso world_sample (Date_now world_sample (ticks fresh_state)) = ''1714557600000''"
    by (simp add: world_sample_def fresh_state_def string_of_nat.simps)
  have m: "iso world_sample (Date_now world_sample (Suc (ticks fresh_state))) = ''1714557601000''"
    by (simp add: world_sample_def fresh_state_def string_of_nat.simps)
  show ?thesis
    using p n m by (simp add: transformArticle_unparsable transformArticle_no_date)
qed

text \<open>
  C3. \<open>fetchArticles\<close> always resolves. It resolves with the empty list when the request
  is rejected, when the response is not a success, when the body does not parse, parses to
  \<open>null\<close>, has no \<open>news_results\<close> or has one that is not an array. The loops of \<open>POST\<close>
  therefore never stop early: they end with the articles of every keyword whose answer
  carried results, in catalog order, whatever happened for the other keywords.
\<close>

theorem fetchArticles_never_raises:
  "(\<exists>as. fst (fetchArticles w keyword language s) = Inr as) \<and>
   ((\<exists>e. fetch w ''https://serpapi.com/search'' (searchParams w keyword language) = Rejects e) \<or>
    (\<exists>resp. fetch w ''https://serpapi.com/search'' (searchParams w keyword language) = Resolves resp \<and>
       (\<not> ok resp \<or> (\<exists>e. json_body resp = Inl e) \<or> json_body resp = Inr NullData \<or>
        json_body resp = Inr (Data NoResults) \<or> json_body resp = Inr (Data NotArray)))
    \<longrightarrow> fst (fetchArticles w keyword language s) = Inr []) \<and>
   (\<exists>allArticles. fst (processLanguages w keywords_catalog [] s) = Inr allArticles \<and>
      map link allArticles = catalog_links w keywords_catalog)"
proof (intro conjI impI)
  show "\<exists>as. fst (fetchArticles w keyword language s) = Inr as"
    by (rule fetchArticles_returns)
next
  assume "(\<exists>e. fetch w ''https://serpapi.com/search'' (searchParams w keyword language) = Rejects e) \<or>
    (\<exists>resp. fetch w ''https://serpapi.com/search'' (searchParams w keyword language) = Resolves resp \<and>
       (\<not> ok resp \<or> (\<exists>e. json_body resp = Inl e) \<or> json_body resp = Inr NullData \<or>
        json_body resp = Inr (Data NoResults) \<or> json_body resp = Inr (Data NotArray)))"
  then have "contribution w keyword language = []"
    by (rule contribution_failed)
  then show "fst (fetchArticles w keyword language s) = Inr []"
    by (rule fetchArticles_empty)
next
  show "\<exists>allArticles. fst (processLanguages w keywords_catalog [] s) = Inr allArticles \<and>
      map link allArticles = catalog_links w keywords_catalog"
    using processLanguages_run [of w keywords_catalog "[]" s] by auto
qed

text \<open>
  C3, on a sample run: the first French keyword is answered with a server error, the second
  with five results; the run accumulates exactly those five.
\<close>

theorem fetchArticles_never_raises_witness:
  "fst (fetchArticles world_sample ''La Marine royale'' ''french'' fresh_state) = Inr [] \<and>
   (\<exists>allArticles. fst (processLanguages world_sample keywords_catalog [] fresh_state) = Inr allArticles \<and>
      map link allArticles =
        [''https://example.org/a'', ''https://example.org/b'', ''https://example.org/c'',
         ''https://example.org/d'', ''https://example.org/e''])"
proof -
  have h: "fetch world_sample ''https://serpapi.com/search''
             (searchParams world_sample ''La Marine royale'' ''french'') =
           Resolves \<lparr>ok = False, text_body = Inr ''Internal Server Error'',
                     json_body = Inl (Error ''SyntaxError'' ''Unexpected token'')\<rparr>"
    by (simp add: world_sample_def sample_fetch_def searchParams_def)
  show ?thesis
    using fetchArticles_never_raises [of world_sample "''La Marine royale''" "''french''" fresh_state]
    by (simp add: h sample_contributions)
qed

text \<open>
  C4. If \<open>fetchArticles\<close> yields no article for any keyword of the catalog, \<open>POST\<close> resolves
  with status 404 and the body \<open>{ success: false, message: 'No articles found' }\<close>, and it
  adds no call to the data store to the trace.
\<close>

theorem POST_no_articles_found:
  assumes "\<forall>(lang, ks) \<in> set keywords_catalog. \<forall>k \<in> set ks. \<forall>s'.
             fst (fetchArticles w k lang s') = Inr []"
  shows "fst (POST w s) = Inr \<lparr>status = 404, body = Summary False ''No articles found''\<rparr> \<and>
         filter (\<lambda>e. is_Rpc e \<or> is_Upsert e) (trace (snd (POST w s))) =
           filter (\<lambda>e. is_Rpc e \<or> is_Upsert e) (trace s)"
proof -
  have c: "contribution w k lang = []" if "(lang, ks) \<in> set keywords_catalog" "k \<in> set ks" for lang ks k
    using assms that fetchArticles_empty_iff [of w k lang s] by fastforce
  obtain allArticles where
    r: "fst (processLanguages w keywords_catalog [] s) = Inr allArticles" and
    l: "map link allArticles = catalog_links w keywords_catalog"
    using processLanguages_run [of w keywords_catalog "[]" s] by auto
  have "catalog_links w keywords_catalog = []"
    using c by (rule catalog_links_empty)
  then have "allArticles = []"
    using l by simp
  then have e: "fst (processLanguages w keywords_catalog [] s) = Inr []"
    using r by simp
  have "fst (POST w s) = Inr \<lparr>status = 404, body = Summary False ''No articles found''\<rparr>"
    using e by (rule POST_no_articles)
  moreover have "filter (\<lambda>e. is_Rpc e \<or> is_Upsert e) (trace (snd (POST w s))) =
           filter (\<lambda>e. is_Rpc e \<or> is_Upsert e) (trace s)"
    by (simp add: POST_no_articles_trace [OF e] no_store_calls_in_requests)
  ultimately show ?thesis
    by simp
qed

text \<open>
  C4, on a run where the news source answers every request with a server error.
\<close>

theorem POST_no_articles_found_witness:
  "fst (POST world_silent fresh_state) =
     Inr \<lparr>status = 404, body = Summary False ''No articles found''\<rparr> \<and>
   filter (\<lambda>e. is_Rpc e \<or> is_Upsert e) (trace (snd (POST world_silent fresh_state))) = []"
proof -
  have h: "\<forall>(lang, ks) \<in> set keywords_catalog. \<forall>k \<in> set ks. \<forall>s'.
             fst (fetchArticles world_silent k lang s') = Inr []"
    by (simp add: fetchArticles_def fetchArticles_try_def world_silent_def Let_def)
  show ?thesis
    using POST_no_articles_found [OF h, of fresh_state] by (simp add: fresh_state_def)
qed



text \<open>
  C6, evaluated. On the five articles of the sample run, \<open>insertArticles\<close> rejects before
  the projection and makes no call to the data store: no upsert is issued.
\<close>

theorem insertArticles_issues_no_upsert:
  "fst (insertArticles world_sample sample_articles fresh_state) =
     Inl (Error ''ReferenceError'' ''response is not defined'') \<and>
   trace (snd (insertArticles world_sample sample_articles fresh_state)) = []"
  by (simp add: insertArticles_unbound sample_articles_def fresh_state_def world_sample_def)

text \<open>
  C7, evaluated. \<open>createArticlesTable\<close> rejects with a \<open>ReferenceError\<close> at line 71: it
  neither reads the table nor asks for its creation.
\<close>

theorem createArticlesTable_reads_nothing:
  "fst (createArticlesTable world_sample fresh_state) =
     Inl (Error ''ReferenceError'' ''response is not defined'') \<and>
   trace (snd (createArticlesTable world_sample fresh_state)) = []"
  by (simp add: createArticlesTable_unbound fresh_state_def world_sample_def)



text \<open>
  C9. The search requests and pauses that one run of \<open>POST\<close> adds to the trace are, in
  this order, one request followed by one pause of 1000 milliseconds for every keyword of
  the catalog, the language groups in declaration order (Arabic, French, Spanish: 6, 7 and
  7 keywords) and the keywords in list order; the run makes exactly 20 requests.
\<close>

theorem POST_requests_follow_catalog:
  "filter (\<lambda>e. is_Fetch e \<or> is_Delay e) (drop (length (trace s)) (trace (snd (POST w s)))) =
     concat (map (\<lambda>(lang, ks).
       concat (map (\<lambda>k. [Fetch ''https://serpapi.com/search'' (searchParams w k lang), Delay 1000]) ks))
       keywords_catalog) \<and>
   map fst keywords_catalog = [''arabic'', ''french'', ''spanish''] \<and>
   map (\<lambda>entry. length (snd entry)) keywords_catalog = [6, 7, 7] \<and>
   length (filter is_Fetch (trace (snd (POST w s)))) = length (filter is_Fetch (trace s)) + 20"
proof (intro conjI)
  obtain es where
    es: "trace (snd (POST w s)) = trace s @ catalog_requests w keywords_catalog @ es" and
    p: "filter (\<lambda>e. is_Fetch e \<or> is_Delay e) es = []"
    using POST_trace [of w s] by blast
  have f: "filter is_Fetch es = []"
    using p by (auto simp: filter_empty_conv)
  have eq: "catalog_requests w keywords_catalog =
     concat (map (\<lambda>(lang, ks).
       concat (map (\<lambda>k. [Fetch ''https://serpapi.com/search'' (searchParams w k lang), Delay 1000]) ks))
       keywords_catalog)"
    by (simp add: catalog_requests_def requests_of_def)
  show "filter (\<lambda>e. is_Fetch e \<or> is_Delay e) (drop (length (trace s)) (trace (snd (POST w s)))) =
     concat (map (\<lambda>(lang, ks).
       concat (map (\<lambda>k. [Fetch ''https://serpapi.com/search'' (searchParams w k lang), Delay 1000]) ks))
       keywords_catalog)"
    unfolding eq [symmetric] by (simp add: es p only_requests_in_requests)
  show "map fst keywords_catalog = [''arabic'', ''french'', ''spanish'']"
    by (rule catalog_shape)
  show "map (\<lambda>entry. length (snd entry)) keywords_catalog = [6, 7, 7]"
    by (rule catalog_shape)
  show "length (filter is_Fetch (trace (snd (POST w s)))) = length (filter is_Fetch (trace s)) + 20"
    by (simp add: es f catalog_requests_count catalog_shape)
qed

text \<open>
  C10. The one request \<open>fetchArticles\<close> makes carries the parameter \<open>hl\<close>, which is \<open>ar\<close>
  exactly for the language tag \<open>arabic\<close>, \<open>fr\<close> exactly for the tag \<open>french\<close>, and \<open>es\<close> for
  every other tag.
\<close>

theorem fetchArticles_locale:
  "trace (snd (fetchArticles w keyword language s)) =
     trace s @ [Fetch ''https://serpapi.com/search'' (searchParams w keyword language)] \<and>
   (map_of (searchParams w keyword language) ''hl'' = Some ''ar'') = (language = ''arabic'') \<and>
   (map_of (searchParams w keyword language) ''hl'' = Some ''fr'') = (language = ''french'') \<and>
   (map_of (searchParams w keyword language) ''hl'' = Some ''es'') =
     (language \<noteq> ''arabic'' \<and> language \<noteq> ''french'')"
  by (simp add: fetchArticles_trace searchParams_hl)

end
